theory Spec2Isabelle
  imports Main "HOL-Library.Sublist"
begin

section \<open>Python values shared by the three functions and the three commands\<close>

text \<open>
  The exceptions the sources can raise. A provider error (botocore's \<open>ClientError\<close>)
  carries its error code and the text \<open>str(e)\<close> prints; every other exception of the
  provider library (a waiter that gives up, a connection that fails, a missing
  credential) is not a \<open>ClientError\<close> and is \<open>OtherError\<close> here.
\<close>

datatype exn =
    KeyError string
  | ValueError
  | TypeError
  | AttributeError
  | UnboundLocalError string
  | ClientError string string
  | OtherError

text \<open>
  \<open>int(text)\<close> on a \<open>str\<close>: surrounding whitespace is dropped, one sign is allowed,
  then decimal digits, where single underscores may stand between digits. Anything else
  (an empty text, a decimal point, an exponent) raises \<open>ValueError\<close>, which is \<open>None\<close>
  here. Characters are bytes, so the digits and the whitespace of other scripts that
  Python also accepts are outside this model; \<open>py_strip\<close> is \<open>str.strip()\<close> with the
  same whitespace.
\<close>

definition is_space :: "char \<Rightarrow> bool" where
  "is_space c = (let n = (of_char c :: nat) in n = 32 \<or> (9 \<le> n \<and> n \<le> 13) \<or> (28 \<le> n \<and> n \<le> 31))"

definition py_strip :: "string \<Rightarrow> string" where
  "py_strip s = rev (dropWhile is_space (rev (dropWhile is_space s)))"

definition is_digit :: "char \<Rightarrow> bool" where
  "is_digit c = (let n = (of_char c :: nat) in 48 \<le> n \<and> n \<le> 57)"

definition digit_val :: "char \<Rightarrow> nat" where
  "digit_val c = of_char c - 48"

fun digits_val :: "nat \<Rightarrow> string \<Rightarrow> nat option" where
  "digits_val acc [] = Some acc"
| "digits_val acc [c] = (if is_digit c then Some (10 * acc + digit_val c) else None)"
| "digits_val acc (c # d # ds) =
     (if is_digit c then digits_val (10 * acc + digit_val c) (d # ds)
      else if c = CHR ''_'' \<and> is_digit d then digits_val (10 * acc + digit_val d) ds
      else None)"

definition py_nat :: "string \<Rightarrow> nat option" where
  "py_nat s = (case s of [] \<Rightarrow> None
               | c # cs \<Rightarrow> if is_digit c then digits_val (digit_val c) cs else None)"

definition py_int :: "string \<Rightarrow> int option" where
  "py_int s =
     (case py_strip s of
        [] \<Rightarrow> None
      | c # cs \<Rightarrow>
          if c = CHR ''-'' then map_option (\<lambda>n. - int n) (py_nat cs)
          else if c = CHR ''+'' then map_option int (py_nat cs)
          else map_option int (py_nat (c # cs)))"

text \<open>\<open>sub in s\<close> on strings: \<open>sub\<close> occurs in \<open>s\<close> as a contiguous run.\<close>

fun starts_with :: "string \<Rightarrow> string \<Rightarrow> bool" where
  "starts_with [] s = True"
| "starts_with (p # ps) [] = False"
| "starts_with (p # ps) (c # cs) = (p = c \<and> starts_with ps cs)"

fun py_in :: "string \<Rightarrow> string \<Rightarrow> bool" where
  "py_in sub [] = (sub = [])"
| "py_in sub (c # cs) = (starts_with sub (c # cs) \<or> py_in sub cs)"


section \<open>lambdas/notify\_low\_stock: the notification function\<close>

text \<open>
  A change-stream record as the handler reads it: \<open>record["eventName"]\<close> (a missing key
  raises \<open>KeyError\<close>), \<open>record.get("dynamodb", {}).get("NewImage", {})\<close>, and in the
  image the attributes \<open>Store\<close>, \<open>Item\<close> and \<open>Count\<close>, each a dictionary from a type
  tag (\<open>S\<close>, \<open>N\<close>) to the value's text.
\<close>

type_synonym attr = "string \<rightharpoonup> string"

type_synonym image = "string \<rightharpoonup> attr"

record dynamodb_part =
  NewImage :: "image option"

record stream_record =
  eventName :: "string option"
  dynamodb :: "dynamodb_part option"

record stream_event =
  Records :: "stream_record list option"

text \<open>
  One call of \<open>sns.publish\<close>: the subject line and the three values the message text is
  built from (the lines \<open>Tienda\<close>, \<open>Articulo\<close> and \<open>Stock actual\<close> of the text).
\<close>

record sns_message =
  Subject :: string
  Tienda :: string
  Articulo :: string
  Stock_actual :: int

datatype notify_body = Processed nat | NotifyError exn

definition LOW_STOCK_THRESHOLD :: int where
  "LOW_STOCK_THRESHOLD = 50"

definition new_image :: "stream_record \<Rightarrow> image" where
  "new_image r =
     (case dynamodb r of None \<Rightarrow> Map.empty
      | Some d \<Rightarrow> (case NewImage d of None \<Rightarrow> Map.empty | Some im \<Rightarrow> im))"

text \<open>\<open>new_image.get(name, {}).get("S", "Unknown")\<close>\<close>

definition image_text :: "image \<Rightarrow> string \<Rightarrow> string" where
  "image_text im name =
     (case im name of None \<Rightarrow> ''Unknown''
      | Some a \<Rightarrow> (case a ''S'' of None \<Rightarrow> ''Unknown'' | Some s \<Rightarrow> s))"

text \<open>
  \<open>int(new_image.get("Count", {}).get("N", 0))\<close>: the default is the integer \<open>0\<close>, a
  text that is present goes through \<open>int\<close> and may raise \<open>ValueError\<close>.
\<close>

definition image_count :: "image \<Rightarrow> exn + int" where
  "image_count im =
     (case im ''Count'' of None \<Rightarrow> Inr 0
      | Some a \<Rightarrow>
          (case a ''N'' of None \<Rightarrow> Inr 0
           | Some t \<Rightarrow> (case py_int t of None \<Rightarrow> Inl ValueError | Some c \<Rightarrow> Inr c)))"

definition alert :: "string \<Rightarrow> string \<Rightarrow> int \<Rightarrow> sns_message" where
  "alert st it c =
     \<lparr>Subject = ''[ALERTA] Stock bajo: '' @ it @ '' en '' @ st,
      Tienda = st, Articulo = it, Stock_actual = c\<rparr>"

text \<open>
  The loop over the records. The state is \<open>notified_count\<close> and the publish calls issued
  so far, oldest first. \<open>publish_raises\<close> is the topic: whether \<open>sns.publish\<close> raises for
  this message after those calls; the handler catches that, prints it and goes on to the
  next record without counting. An exception anywhere else in the body leaves the loop:
  the first component of the result is that exception.
\<close>

fun notify_loop ::
  "(sns_message list \<Rightarrow> sns_message \<Rightarrow> bool) \<Rightarrow> stream_record list \<Rightarrow>
   nat \<times> sns_message list \<Rightarrow> exn option \<times> nat \<times> sns_message list" where
  "notify_loop publish_raises [] (notified_count, calls) = (None, notified_count, calls)"
| "notify_loop publish_raises (r # rs) (notified_count, calls) =
     (case eventName r of
        None \<Rightarrow> (Some (KeyError ''eventName''), notified_count, calls)
      | Some event_name \<Rightarrow>
          if event_name = ''INSERT'' \<or> event_name = ''MODIFY'' then
            (case image_count (new_image r) of
               Inl e \<Rightarrow> (Some e, notified_count, calls)
             | Inr c \<Rightarrow>
                 if c < LOW_STOCK_THRESHOLD then
                   (let m = alert (image_text (new_image r) ''Store'')
                                  (image_text (new_image r) ''Item'') c
                    in if publish_raises calls m
                       then notify_loop publish_raises rs (notified_count, calls @ [m])
                       else notify_loop publish_raises rs (notified_count + 1, calls @ [m]))
                 else notify_loop publish_raises rs (notified_count, calls))
          else notify_loop publish_raises rs (notified_count, calls))"

text \<open>
  The handler: status code and body of the response, and the publish calls it issued.
  \<open>event.get("Records", [])\<close> reads a missing key as the empty batch.
\<close>

definition notify_lambda_handler ::
  "(sns_message list \<Rightarrow> sns_message \<Rightarrow> bool) \<Rightarrow> stream_event \<Rightarrow>
   (nat \<times> notify_body) \<times> sns_message list" where
  "notify_lambda_handler publish_raises event =
     (let records = (case Records event of None \<Rightarrow> [] | Some rs \<Rightarrow> rs)
      in case notify_loop publish_raises records (0, []) of
           (None, notified_count, calls) \<Rightarrow> ((200, Processed notified_count), calls)
         | (Some e, notified_count, calls) \<Rightarrow> ((500, NotifyError e), calls))"




section \<open>lambdas/load\_inventory: the ingestion function\<close>

text \<open>
  One record of the object-store event: \<open>record["s3"]["bucket"]["name"]\<close> and
  \<open>record["s3"]["object"]["key"]\<close>; \<open>None\<close> stands for a key missing on the way, which
  raises \<open>KeyError\<close>.
\<close>

record s3_record =
  s3_bucket :: "string option"
  s3_key :: "string option"

record s3_event =
  S3Records :: "s3_record list option"

text \<open>
  A row as \<open>csv.DictReader\<close> yields it: a dictionary from the header's field names to the
  row's values. A field name that the header lacks is absent (\<open>None\<close>: \<open>row[name]\<close> raises
  \<open>KeyError\<close>); a row shorter than the header holds Python's \<open>None\<close> for the fields it
  lacks (\<open>Some None\<close>: \<open>.strip()\<close> raises \<open>AttributeError\<close>, \<open>int\<close> raises \<open>TypeError\<close>).
  Downloading, decoding and splitting the text are the libraries' work: \<open>get_object\<close>
  below gives their result, the rows, or the exception they raised.
\<close>

type_synonym csv_row = "string \<rightharpoonup> string option"

record inventory_item =
  Store :: string
  Item :: string
  Count :: int

datatype load_body = Inserted nat | LoadError exn

text \<open>The body of the per-row \<open>try\<close>, up to the call of \<open>table.put_item\<close>.\<close>

definition row_item :: "csv_row \<Rightarrow> exn + inventory_item" where
  "row_item row =
     (case row ''Store'' of
        None \<Rightarrow> Inl (KeyError ''Store'')
      | Some None \<Rightarrow> Inl AttributeError
      | Some (Some s) \<Rightarrow>
          (case row ''Item'' of
             None \<Rightarrow> Inl (KeyError ''Item'')
           | Some None \<Rightarrow> Inl AttributeError
           | Some (Some i) \<Rightarrow>
               (case row ''Count'' of
                  None \<Rightarrow> Inl (KeyError ''Count'')
                | Some None \<Rightarrow> Inl TypeError
                | Some (Some c) \<Rightarrow>
                    (case py_int c of
                       None \<Rightarrow> Inl ValueError
                     | Some n \<Rightarrow> Inr \<lparr>Store = py_strip s, Item = py_strip i, Count = n\<rparr>))))"

text \<open>
  The loop over the rows of one file. The state is \<open>items_inserted\<close> and the items the
  table has accepted so far, oldest first. \<open>put_raises\<close> is the table: whether
  \<open>table.put_item\<close> raises for this item after those puts. Every exception of the body
  is caught by the row's own \<open>except\<close>, printed, and the loop continues.
\<close>

fun load_rows ::
  "(inventory_item list \<Rightarrow> inventory_item \<Rightarrow> bool) \<Rightarrow> csv_row list \<Rightarrow>
   nat \<times> inventory_item list \<Rightarrow> nat \<times> inventory_item list" where
  "load_rows put_raises [] (items_inserted, puts) = (items_inserted, puts)"
| "load_rows put_raises (row # rows) (items_inserted, puts) =
     (case row_item row of
        Inl e \<Rightarrow> load_rows put_raises rows (items_inserted, puts)
      | Inr it \<Rightarrow>
          if put_raises puts it then load_rows put_raises rows (items_inserted, puts)
          else load_rows put_raises rows (items_inserted + 1, puts @ [it]))"

text \<open>
  The loop over the event's records. \<open>items_inserted\<close> is assigned inside the loop only
  (\<open>items_inserted = 0\<close> before the rows of each file), so it is \<open>None\<close>, unbound, until
  the first record is reached. An exception here is not caught in the loop.
\<close>

fun load_records ::
  "(string \<Rightarrow> string \<Rightarrow> exn + csv_row list) \<Rightarrow>
   (inventory_item list \<Rightarrow> inventory_item \<Rightarrow> bool) \<Rightarrow> s3_record list \<Rightarrow>
   nat option \<times> inventory_item list \<Rightarrow> exn option \<times> nat option \<times> inventory_item list" where
  "load_records get_object put_raises [] (items_inserted, puts) = (None, items_inserted, puts)"
| "load_records get_object put_raises (r # rs) (items_inserted, puts) =
     (case s3_bucket r of
        None \<Rightarrow> (Some (KeyError ''s3''), items_inserted, puts)
      | Some bucket \<Rightarrow>
          (case s3_key r of
             None \<Rightarrow> (Some (KeyError ''s3''), items_inserted, puts)
           | Some key \<Rightarrow>
               (case get_object bucket key of
                  Inl e \<Rightarrow> (Some e, items_inserted, puts)
                | Inr rows \<Rightarrow>
                    (case load_rows put_raises rows (0, puts) of
                       (n, puts') \<Rightarrow> load_records get_object put_raises rs (Some n, puts')))))"

text \<open>
  The handler: status code and body of the response, and the items put into the table.
  The success response reads \<open>items_inserted\<close>; reading it unbound raises
  \<open>UnboundLocalError\<close>, which the handler's own \<open>except Exception\<close> turns into the 500
  response like any other exception.
\<close>

definition load_lambda_handler ::
  "(string \<Rightarrow> string \<Rightarrow> exn + csv_row list) \<Rightarrow>
   (inventory_item list \<Rightarrow> inventory_item \<Rightarrow> bool) \<Rightarrow> s3_event \<Rightarrow>
   (nat \<times> load_body) \<times> inventory_item list" where
  "load_lambda_handler get_object put_raises event =
     (let records = (case S3Records event of None \<Rightarrow> [] | Some rs \<Rightarrow> rs)
      in case load_records get_object put_raises records (None, []) of
           (Some e, items_inserted, puts) \<Rightarrow> ((500, LoadError e), puts)
         | (None, None, puts) \<Rightarrow> ((500, LoadError (UnboundLocalError ''items_inserted'')), puts)
         | (None, Some n, puts) \<Rightarrow> ((200, Inserted n), puts))"



section \<open>lambdas/get\_inventory\_api: the query function\<close>

















section \<open>The commands: provider calls, output lines, exceptions\<close>

text \<open>
  The three commands talk to the provider and print. A run is followed through its
  events, oldest first: the provider calls it issued and the status lines it printed
  (the mark that starts the line and the resource it names; the \<open>[*]\<close> progress lines
  and the banners are left out). The type of calls is the command's own.
\<close>

datatype mark = Tick | Info | Warn | Cross

datatype 'c event = Call 'c | Print mark string

text \<open>
  The provider is a parameter. For a call issued after the events \<open>h\<close>, \<open>raises\<close> says
  whether it raises and what; when it returns, the part of the response the command
  reads is \<open>listing\<close> (a list of names or identifiers), \<open>text_of\<close> (one identifier),
  \<open>pairs\<close> (names with identifiers), \<open>flag\<close> or \<open>versions\<close> (the pages of a listing of
  object versions).
\<close>

record object_id =
  Key :: string
  VersionId :: string

record versions_page =
  Versions :: "object_id list option"
  DeleteMarkers :: "object_id list option"

record 'c provider =
  raises :: "'c event list \<Rightarrow> 'c \<Rightarrow> exn option"
  listing :: "'c event list \<Rightarrow> 'c \<Rightarrow> string list"
  text_of :: "'c event list \<Rightarrow> 'c \<Rightarrow> string"
  pairs :: "'c event list \<Rightarrow> 'c \<Rightarrow> (string \<times> string) list"
  flag :: "'c event list \<Rightarrow> 'c \<Rightarrow> bool"
  versions :: "'c event list \<Rightarrow> 'c \<Rightarrow> versions_page list"

text \<open>
  A piece of a command takes the events so far and gives its result, a value or the
  exception it raised, with the events extended.
\<close>

type_synonym ('c, 'a) run = "'c event list \<Rightarrow> (exn + 'a) \<times> 'c event list"

definition return :: "'a \<Rightarrow> ('c, 'a) run" where
  "return x h = (Inr x, h)"

definition raise :: "exn \<Rightarrow> ('c, 'a) run" where
  "raise e h = (Inl e, h)"

definition print :: "mark \<Rightarrow> string \<Rightarrow> ('c, unit) run" where
  "print m s h = (Inr (), h @ [Print m s])"

definition bind :: "('c, 'a) run \<Rightarrow> ('a \<Rightarrow> ('c, 'b) run) \<Rightarrow> ('c, 'b) run" where
  "bind m f h = (case m h of (Inl e, h') \<Rightarrow> (Inl e, h') | (Inr x, h') \<Rightarrow> f x h')"

definition seq :: "('c, unit) run \<Rightarrow> ('c, 'b) run \<Rightarrow> ('c, 'b) run" where
  "seq m k = bind m (\<lambda>u. k)"

text \<open>Statements one after the other; the first that raises ends the list.\<close>

fun steps :: "('c, unit) run list \<Rightarrow> ('c, unit) run" where
  "steps [] = return ()"
| "steps (m # ms) = seq m (steps ms)"

text \<open>Statements one after the other, then a last one that gives the value.\<close>

definition steps_then :: "('c, unit) run list \<Rightarrow> ('c, 'a) run \<Rightarrow> ('c, 'a) run" where
  "steps_then ms k = seq (steps ms) k"

text \<open>\<open>for x in xs: body\<close>\<close>

definition for_each :: "'a list \<Rightarrow> ('a \<Rightarrow> ('c, unit) run) \<Rightarrow> ('c, unit) run" where
  "for_each xs body = steps (map body xs)"

text \<open>
  \<open>try: m  except Exception as e: handler\<close> (and the bare \<open>except:\<close>), and
  \<open>try: m  except ClientError as e: handler\<close>, which lets every other exception pass.
\<close>

definition catch :: "('c, 'a) run \<Rightarrow> (exn \<Rightarrow> ('c, 'a) run) \<Rightarrow> ('c, 'a) run" where
  "catch m handler h = (case m h of (Inl e, h') \<Rightarrow> handler e h' | (Inr x, h') \<Rightarrow> (Inr x, h'))"

definition catch_client ::
  "('c, 'a) run \<Rightarrow> (string \<Rightarrow> string \<Rightarrow> ('c, 'a) run) \<Rightarrow> ('c, 'a) run" where
  "catch_client m handler h =
     (case m h of
        (Inl (ClientError code msg), h') \<Rightarrow> handler code msg h'
      | (Inl e, h') \<Rightarrow> (Inl e, h')
      | (Inr x, h') \<Rightarrow> (Inr x, h'))"

text \<open>A provider call whose response is not read, and the calls whose response is.\<close>

definition call :: "'c provider \<Rightarrow> 'c \<Rightarrow> ('c, unit) run" where
  "call env c h = ((case raises env h c of Some e \<Rightarrow> Inl e | None \<Rightarrow> Inr ()), h @ [Call c])"

definition call_listing :: "'c provider \<Rightarrow> 'c \<Rightarrow> ('c, string list) run" where
  "call_listing env c h =
     ((case raises env h c of Some e \<Rightarrow> Inl e | None \<Rightarrow> Inr (listing env h c)), h @ [Call c])"

definition call_text :: "'c provider \<Rightarrow> 'c \<Rightarrow> ('c, string) run" where
  "call_text env c h =
     ((case raises env h c of Some e \<Rightarrow> Inl e | None \<Rightarrow> Inr (text_of env h c)), h @ [Call c])"



definition call_versions :: "'c provider \<Rightarrow> 'c \<Rightarrow> ('c, versions_page list) run" where
  "call_versions env c h =
     ((case raises env h c of Some e \<Rightarrow> Inl e | None \<Rightarrow> Inr (versions env h c)), h @ [Call c])"


section \<open>infra/destroy.py: the teardown command\<close>

text \<open>
  The deployment record as \<open>destroy.py\<close> reads it when it starts, and what it does
  with the provider and the record file. \<open>UnlinkRecord\<close> is \<open>config_file.unlink()\<close>, a
  call to the file system and not to the cloud.
\<close>

record destroy_config =
  bucket_uploads :: string
  bucket_web :: string
  table_name :: string
  lambda_load :: string
  lambda_api :: string
  lambda_notify :: string
  api_id :: string
  iam_role :: string
  sns_topic_arn :: string

datatype destroy_call =
    UnlinkRecord
  | ListEventSourceMappings string
  | DeleteEventSourceMapping string
  | DeleteFunction string
  | DeleteApi string
  | DeleteTable string
  | WaitTableNotExists string
  | SuspendVersioning string
  | ListObjectVersions string
  | DeleteObjects string "object_id list"
  | DeleteBucket string
  | ListRolePolicies string
  | DeleteRolePolicy string string
  | DeleteRole string
  | ListTopics
  | ListSubscriptionsByTopic string
  | Unsubscribe string
  | DeleteTopic string

text \<open>
  \<open>range(0, n, step)\<close> and the batches of \<open>empty_s3_bucket\<close>:
  \<open>for i in range(0, len(all_deletes), 1000): batch = all_deletes[i:i+1000]\<close>, a batch
  being sent \<open>if batch\<close>.
\<close>

definition py_range_step :: "nat \<Rightarrow> nat \<Rightarrow> nat list" where
  "py_range_step n step = map (\<lambda>j. j * step) [0 ..< (n + step - 1) div step]"

definition batches :: "'a list \<Rightarrow> 'a list list" where
  "batches all_deletes =
     filter (\<lambda>batch. batch \<noteq> [])
       (map (\<lambda>i. take 1000 (drop i all_deletes)) (py_range_step (length all_deletes) 1000))"

text \<open>What the loop over the pages collects: the versions of every page, then the markers.\<close>

definition objects_to_delete :: "versions_page list \<Rightarrow> object_id list" where
  "objects_to_delete pages =
     concat (map (\<lambda>page. case Versions page of None \<Rightarrow> [] | Some vs \<Rightarrow> vs) pages)"

definition delete_markers :: "versions_page list \<Rightarrow> object_id list" where
  "delete_markers pages =
     concat (map (\<lambda>page. case DeleteMarkers page of None \<Rightarrow> [] | Some ms \<Rightarrow> ms) pages)"

definition all_deletes :: "versions_page list \<Rightarrow> object_id list" where
  "all_deletes pages = objects_to_delete pages @ delete_markers pages"

text \<open>
  \<open>empty_s3_bucket\<close>. Versioning is suspended first, whatever that call does. The
  listing pages are read to the end before anything is deleted, so the paginator is one
  call here. Both \<open>except\<close> clauses print and return.
\<close>

definition suspend_versioning :: "destroy_call provider \<Rightarrow> string \<Rightarrow> (destroy_call, unit) run" where
  "suspend_versioning env bucket_name =
     catch (seq (call env (SuspendVersioning bucket_name)) (print Tick bucket_name))
           (\<lambda>e. return ())"

definition empty_s3_bucket :: "destroy_call provider \<Rightarrow> string \<Rightarrow> (destroy_call, unit) run" where
  "empty_s3_bucket env bucket_name =
     catch
       (seq (suspend_versioning env bucket_name)
         (bind (call_versions env (ListObjectVersions bucket_name))
           (\<lambda>pages.
              seq (for_each (batches (all_deletes pages))
                     (\<lambda>batch. call env (DeleteObjects bucket_name batch)))
                  (print Tick bucket_name))))
       (\<lambda>e. case e of
               ClientError code msg \<Rightarrow>
                 if code = ''NoSuchBucket'' then print Info bucket_name
                 else print Warn bucket_name
             | _ \<Rightarrow> print Warn bucket_name)"

definition delete_s3_bucket :: "destroy_call provider \<Rightarrow> string \<Rightarrow> (destroy_call, unit) run" where
  "delete_s3_bucket env bucket_name =
     catch_client
       (seq (call env (DeleteBucket bucket_name)) (print Tick bucket_name))
       (\<lambda>code msg. if code = ''NoSuchBucket'' then print Info bucket_name
                    else print Warn bucket_name)"

text \<open>\<open>delete_lambda\<close>: the event source mappings first, whatever happens there.\<close>

definition delete_mappings :: "destroy_call provider \<Rightarrow> string \<Rightarrow> (destroy_call, unit) run" where
  "delete_mappings env function_name =
     catch
       (bind (call_listing env (ListEventSourceMappings function_name))
          (\<lambda>uuids. for_each uuids
             (\<lambda>uuid. seq (call env (DeleteEventSourceMapping uuid)) (print Tick uuid))))
       (\<lambda>e. return ())"

definition delete_lambda :: "destroy_call provider \<Rightarrow> string \<Rightarrow> (destroy_call, unit) run" where
  "delete_lambda env function_name =
     catch_client
       (seq (delete_mappings env function_name)
         (seq (call env (DeleteFunction function_name)) (print Tick function_name)))
       (\<lambda>code msg. if code = ''ResourceNotFoundException'' then print Info function_name
                    else print Cross function_name)"

definition delete_api_gateway :: "destroy_call provider \<Rightarrow> string \<Rightarrow> (destroy_call, unit) run" where
  "delete_api_gateway env api =
     catch_client
       (seq (call env (DeleteApi api)) (print Tick api))
       (\<lambda>code msg. if code = ''NotFoundException'' then print Info api else print Cross api)"

text \<open>\<open>delete_dynamodb_table\<close>: the delete, then the waiter \<open>table_not_exists\<close>.\<close>

definition delete_dynamodb_table :: "destroy_call provider \<Rightarrow> string \<Rightarrow> (destroy_call, unit) run" where
  "delete_dynamodb_table env table =
     catch_client
       (steps [call env (DeleteTable table), print Tick table,
               call env (WaitTableNotExists table), print Tick table])
       (\<lambda>code msg. if code = ''ResourceNotFoundException'' then print Info table
                    else print Cross table)"

text \<open>\<open>delete_iam_role\<close>: the inline policies first, whatever happens there.\<close>

definition delete_role_policies :: "destroy_call provider \<Rightarrow> string \<Rightarrow> (destroy_call, unit) run" where
  "delete_role_policies env role_name =
     catch
       (bind (call_listing env (ListRolePolicies role_name))
          (\<lambda>policy_names. for_each policy_names
             (\<lambda>policy_name. seq (call env (DeleteRolePolicy role_name policy_name))
                                 (print Tick policy_name))))
       (\<lambda>e. return ())"

definition delete_iam_role :: "destroy_call provider \<Rightarrow> string \<Rightarrow> (destroy_call, unit) run" where
  "delete_iam_role env role_name =
     catch_client
       (seq (delete_role_policies env role_name)
         (seq (call env (DeleteRole role_name)) (print Tick role_name)))
       (\<lambda>code msg. if code = ''NoSuchEntity'' then print Info role_name
                    else print Cross role_name)"

text \<open>
  \<open>delete_all_low_stock_topics\<close>: \<open>list_topics\<close> is called outside every \<open>try\<close>; each
  topic whose ARN holds \<open>low-stock\<close> has its subscriptions removed (a \<open>ClientError\<close>
  there is passed over) and is deleted, a \<open>ClientError\<close> being printed.
\<close>

definition delete_topic :: "destroy_call provider \<Rightarrow> string \<Rightarrow> (destroy_call, unit) run" where
  "delete_topic env arn =
     (if py_in ''low-stock'' arn then
        catch_client
          (bind (call_listing env (ListSubscriptionsByTopic arn))
             (\<lambda>subs.
                seq (for_each subs
                       (\<lambda>sub. catch_client (seq (call env (Unsubscribe sub)) (print Tick sub))
                                            (\<lambda>code msg. return ())))
                    (seq (call env (DeleteTopic arn)) (print Tick arn))))
          (\<lambda>code msg. print Warn arn)
      else return ())"

definition delete_all_low_stock_topics :: "destroy_call provider \<Rightarrow> (destroy_call, unit) run" where
  "delete_all_low_stock_topics env =
     bind (call_listing env ListTopics) (\<lambda>topics. for_each topics (delete_topic env))"

text \<open>
  The answer that confirms, \<open>s\<close> and \<open>i\<close> with an acute accent in UTF-8. \<open>response\<close>
  below is what \<open>input(...).strip().lower()\<close> gave.
\<close>

definition si :: string where
  "si = [CHR ''s'', CHR 0xC3, CHR 0xAD]"

text \<open>The statements of \<open>main\<close> after the confirmation, inside its \<open>try\<close>.\<close>

definition unlink_record :: "destroy_call provider \<Rightarrow> (destroy_call, unit) run" where
  "unlink_record env =
     catch (seq (call env UnlinkRecord) (print Tick ''deployment.json'')) (\<lambda>e. return ())"

definition teardown :: "destroy_call provider \<Rightarrow> destroy_config \<Rightarrow> (destroy_call, unit) run list" where
  "teardown env config =
     [unlink_record env,
      delete_lambda env (lambda_load config),
      delete_lambda env (lambda_api config),
      delete_lambda env (lambda_notify config),
      delete_api_gateway env (api_id config),
      delete_dynamodb_table env (table_name config),
      empty_s3_bucket env (bucket_uploads config),
      delete_s3_bucket env (bucket_uploads config),
      empty_s3_bucket env (bucket_web config),
      delete_s3_bucket env (bucket_web config),
      delete_iam_role env (iam_role config),
      delete_all_low_stock_topics env]"

text \<open>
  \<open>main\<close>: the exit code and the events. Any other answer than \<open>si\<close> cancels; an
  exception that reaches \<open>main\<close> is printed and the command exits with code 1.
\<close>

definition destroy_main ::
  "destroy_call provider \<Rightarrow> destroy_config \<Rightarrow> string \<Rightarrow> nat \<times> destroy_call event list" where
  "destroy_main env config response =
     (if response \<noteq> si then (0, [])
      else case steps (teardown env config) [] of
             (Inr u, h) \<Rightarrow> (0, h)
           | (Inl e, h) \<Rightarrow> (1, h @ [Print Cross ''ERROR'']))"

text \<open>
  The command: the record file is looked for when the module is loaded, and without it
  the command exits with code 1 before \<open>main\<close>.
\<close>

definition destroy_command ::
  "destroy_call provider \<Rightarrow> destroy_config option \<Rightarrow> string \<Rightarrow> nat \<times> destroy_call event list" where
  "destroy_command env record_file response =
     (case record_file of
        None \<Rightarrow> (1, [Print Cross ''deployment.json''])
      | Some config \<Rightarrow> destroy_main env config response)"

text \<open>
  What the statements about runs use. \<open>emits S m\<close>: whatever the events so far, \<open>m\<close>
  keeps them and adds events of \<open>S\<close> only. \<open>bucket_events\<close>: the events of emptying a
  bucket whose listing gave \<open>pages\<close>, from the listing call on, when no call raises.
\<close>

definition emits :: "'c event set \<Rightarrow> ('c, 'a) run \<Rightarrow> bool" where
  "emits S m = (\<forall>h. \<exists>es. snd (m h) = h @ es \<and> set es \<subseteq> S)"

definition bucket_events :: "string \<Rightarrow> versions_page list \<Rightarrow> destroy_call event list" where
  "bucket_events bucket_name pages =
     Call (ListObjectVersions bucket_name)
     # map (\<lambda>batch. Call (DeleteObjects bucket_name batch)) (batches (all_deletes pages))
     @ [Print Tick bucket_name]"

text \<open>
  The resource a call of the teardown works on, and the events that touch no resource
  but \<open>k\<close>: the calls on \<open>k\<close> and the printed lines.
\<close>

datatype resource = RecordFile | Function | Api | Table | Bucket string | Role | Topic

fun resource_of :: "destroy_call \<Rightarrow> resource" where
  "resource_of UnlinkRecord = RecordFile"
| "resource_of (ListEventSourceMappings f) = Function"
| "resource_of (DeleteEventSourceMapping u) = Function"
| "resource_of (DeleteFunction f) = Function"
| "resource_of (DeleteApi a) = Api"
| "resource_of (DeleteTable t) = Table"
| "resource_of (WaitTableNotExists t) = Table"
| "resource_of (SuspendVersioning b) = Bucket b"
| "resource_of (ListObjectVersions b) = Bucket b"
| "resource_of (DeleteObjects b batch) = Bucket b"
| "resource_of (DeleteBucket b) = Bucket b"
| "resource_of (ListRolePolicies r) = Role"
| "resource_of (DeleteRolePolicy r p) = Role"
| "resource_of (DeleteRole r) = Role"
| "resource_of ListTopics = Topic"
| "resource_of (ListSubscriptionsByTopic t) = Topic"
| "resource_of (Unsubscribe s) = Topic"
| "resource_of (DeleteTopic t) = Topic"

definition only :: "resource \<Rightarrow> destroy_call event set" where
  "only k = {e. case e of Call c \<Rightarrow> resource_of c = k | Print m s \<Rightarrow> True}"

text \<open>
  \<open>client_only\<close>: every exception the provider raises is a \<open>ClientError\<close>.
  \<open>soft m\<close>: \<open>m\<close> raises nothing but a \<open>ClientError\<close>. \<open>returns m\<close>: \<open>m\<close> never raises.
  \<open>outcome_mark\<close>: the mark of the line a delete step prints after its delete call:
  done, not found (the provider's code for that is \<open>missing\<close>), or failed.
\<close>

definition client_only :: "'c provider \<Rightarrow> bool" where
  "client_only env = (\<forall>h c e. raises env h c = Some e \<longrightarrow> (\<exists>code msg. e = ClientError code msg))"

definition soft :: "('c, 'a) run \<Rightarrow> bool" where
  "soft m = (\<forall>h e. fst (m h) = Inl e \<longrightarrow> (\<exists>code msg. e = ClientError code msg))"



text \<open>
  The inputs of the examples: a deployment record as \<open>deploy.py\<close> writes it; a provider
  that answers every call, lists nothing, and finds two versions and one delete marker
  in a bucket; the same provider with a table waiter that gives up, which botocore
  reports with an exception that is not a \<open>ClientError\<close>; and a listing of 1500 entries
  on two pages.
\<close>

definition sample_config :: destroy_config where
  "sample_config =
     \<lparr>bucket_uploads = ''inventory-uploads-inventory-main'',
      bucket_web = ''inventory-web-inventory-main'',
      table_name = ''Inventory'',
      lambda_load = ''load_inventory'',
      lambda_api = ''get_inventory_api'',
      lambda_notify = ''notify_low_stock'',
      api_id = ''a1b2c3d4e5'',
      iam_role = ''lambda-inventory-role-inventory-main'',
      sns_topic_arn = ''arn:aws:sns:us-east-1:123456789012:low-stock-inventory-main''\<rparr>"

definition quiet_provider :: "destroy_call provider" where
  "quiet_provider =
     \<lparr>raises = (\<lambda>h c. None), listing = (\<lambda>h c. []), text_of = (\<lambda>h c. []),
      pairs = (\<lambda>h c. []), flag = (\<lambda>h c. False),
      versions = (\<lambda>h c. [\<lparr>Versions = Some [\<lparr>Key = ''a.csv'', VersionId = ''1''\<rparr>,
                                           \<lparr>Key = ''a.csv'', VersionId = ''2''\<rparr>],
                          DeleteMarkers = Some [\<lparr>Key = ''b.csv'', VersionId = ''3''\<rparr>]\<rparr>])\<rparr>"


definition pages_1500 :: "versions_page list" where
  "pages_1500 =
     [\<lparr>Versions = Some (replicate 1000 \<lparr>Key = ''a.csv'', VersionId = ''v''\<rparr>),
       DeleteMarkers = None\<rparr>,
      \<lparr>Versions = Some (replicate 200 \<lparr>Key = ''b.csv'', VersionId = ''v''\<rparr>),
       DeleteMarkers = Some (replicate 300 \<lparr>Key = ''c.csv'', VersionId = ''m''\<rparr>)\<rparr>]"




section \<open>infra/validate.py: the validation command\<close>

text \<open>
  The deployment record as \<open>json.load\<close> gives it: a dictionary, here the list of its
  fields with their values; \<open>config[name]\<close> raises \<open>KeyError\<close> for a field the record
  lacks. The calls
  are the read-only provider calls of the checks and the HTTP request of the probe:
  \<open>head_bucket\<close>, \<open>get_bucket_notification_configuration\<close>, \<open>describe_table\<close>,
  \<open>get_function\<close>, \<open>get_api\<close>, \<open>get_routes\<close>, \<open>get_topic_attributes\<close>,
  \<open>list_subscriptions_by_topic\<close>, \<open>get_role\<close>, \<open>list_role_policies\<close> and
  \<open>urllib.request.urlopen\<close>.
\<close>

type_synonym deployment_record = "(string \<times> string) list"
























section \<open>infra/deploy.py: the deployment command\<close>

text \<open>
  The suffix is read when the module is loaded: \<open>existing_config.get("suffix")\<close> of the
  record of an earlier run (Python's \<open>None\<close>, printed as \<open>None\<close> in the names, when that
  record has no such field), or the fixed \<open>inventory-main\<close>. The names follow from it.
\<close>

definition SUFFIX :: "deployment_record option \<Rightarrow> string" where
  "SUFFIX existing =
     (case existing of
        None \<Rightarrow> ''inventory-main''
      | Some existing_config \<Rightarrow>
          (case map_of existing_config ''suffix'' of None \<Rightarrow> ''None'' | Some s \<Rightarrow> s))"

definition BUCKET_UPLOADS :: "string \<Rightarrow> string" where
  "BUCKET_UPLOADS sfx = ''inventory-uploads-'' @ sfx"

definition BUCKET_WEB :: "string \<Rightarrow> string" where
  "BUCKET_WEB sfx = ''inventory-web-'' @ sfx"

definition TABLE_NAME :: string where
  "TABLE_NAME = ''Inventory''"

definition LAMBDA_LOAD_NAME :: string where
  "LAMBDA_LOAD_NAME = ''load_inventory''"

definition LAMBDA_API_NAME :: string where
  "LAMBDA_API_NAME = ''get_inventory_api''"

definition LAMBDA_NOTIFY_NAME :: string where
  "LAMBDA_NOTIFY_NAME = ''notify_low_stock''"

definition IAM_ROLE_LAMBDA :: "string \<Rightarrow> string" where
  "IAM_ROLE_LAMBDA sfx = ''lambda-inventory-role-'' @ sfx"

text \<open>
  \<open>create_iam_role\<close>, with its provider calls \<open>get_role\<close>, \<open>create_role\<close> and
  \<open>attach_role_policy\<close>: the role \<open>LabRole\<close> is used when the provider has it; only
  when looking it up raises a \<open>ClientError\<close> is a role of the command's own created,
  under the name \<open>IAM_ROLE_LAMBDA\<close>. The result is the ARN of the role that will be
  given to the functions.
\<close>

datatype deploy_call =
    GetRole string
  | CreateRole string
  | AttachRolePolicy string string

definition create_iam_role :: "deploy_call provider \<Rightarrow> string \<Rightarrow> (deploy_call, string) run" where
  "create_iam_role env sfx =
     catch_client
       (bind (call_text env (GetRole ''LabRole''))
          (\<lambda>role_arn. seq (print Tick ''LabRole'') (return role_arn)))
       (\<lambda>code msg.
          seq (print Warn ''LabRole'')
            (catch_client
               (bind (call_text env (CreateRole (IAM_ROLE_LAMBDA sfx)))
                  (\<lambda>role_arn.
                     steps_then
                       [print Tick (IAM_ROLE_LAMBDA sfx),
                        call env (AttachRolePolicy (IAM_ROLE_LAMBDA sfx)
                          ''arn:aws:iam::aws:policy/service-role/AWSLambdaBasicExecutionRole''),
                        print Tick ''AWSLambdaBasicExecutionRole'']
                       (return role_arn)))
               (\<lambda>code' msg'. seq (print Cross (IAM_ROLE_LAMBDA sfx))
                                  (raise (ClientError code' msg')))))"

text \<open>
  The other creation steps of \<open>main\<close> enter through what they give back to it: each
  either returns (its value, where \<open>main\<close> uses one) or raises. \<open>create_lambda\<close> is
  called with a function's name and the role's ARN; \<open>create_api_gateway\<close> gives the API's
  identifier and endpoint; \<open>upload_web_content\<close> the site's URL, or \<open>None\<close> without a
  \<open>website\<close> folder; \<open>write_record\<close> is the \<open>open\<close> and \<open>json.dump\<close> that end the run.
\<close>

record creation_steps =
  create_s3_buckets :: "exn option"
  create_dynamodb_table :: "exn + string"
  create_sns_topic :: "exn + string"
  create_lambda :: "string \<Rightarrow> string \<Rightarrow> exn + string"
  add_s3_trigger_to_lambda :: "exn option"
  add_stream_trigger_to_lambda :: "exn option"
  create_api_gateway :: "exn + string \<times> string"
  upload_web_content :: "exn + string option"
  write_record :: "exn option"

definition step :: "exn option \<Rightarrow> ('c, unit) run" where
  "step outcome = (case outcome of None \<Rightarrow> return () | Some e \<Rightarrow> raise e)"

definition step_value :: "exn + 'a \<Rightarrow> ('c, 'a) run" where
  "step_value outcome = (case outcome of Inl e \<Rightarrow> raise e | Inr x \<Rightarrow> return x)"

text \<open>
  The record \<open>main\<close> writes, field by field; \<open>web_url\<close> may be JSON's \<open>null\<close>.
\<close>

type_synonym written_record = "(string \<times> string option) list"

definition config_of ::
  "string \<Rightarrow> string \<Rightarrow> string \<Rightarrow> string \<Rightarrow> string \<Rightarrow> string option \<Rightarrow> string \<Rightarrow> written_record" where
  "config_of now region sfx api api_endpoint web_url topic_arn =
     [(''deployment_time'', Some now),
      (''region'', Some region),
      (''suffix'', Some sfx),
      (''bucket_uploads'', Some (BUCKET_UPLOADS sfx)),
      (''bucket_web'', Some (BUCKET_WEB sfx)),
      (''table_name'', Some TABLE_NAME),
      (''lambda_load'', Some LAMBDA_LOAD_NAME),
      (''lambda_api'', Some LAMBDA_API_NAME),
      (''lambda_notify'', Some LAMBDA_NOTIFY_NAME),
      (''api_id'', Some api),
      (''api_endpoint'', Some api_endpoint),
      (''web_url'', web_url),
      (''sns_topic_arn'', Some topic_arn),
      (''iam_role'', Some (IAM_ROLE_LAMBDA sfx))]"

text \<open>
  The body of \<open>main\<close>'s \<open>try\<close>: the creation steps in order, then the record. Its
  result is the record that was written.
\<close>

definition deployment ::
  "deploy_call provider \<Rightarrow> creation_steps \<Rightarrow> string \<Rightarrow> string \<Rightarrow> string \<Rightarrow>
   (deploy_call, written_record) run" where
  "deployment env cs now region sfx =
     seq (step (create_s3_buckets cs))
    (bind (step_value (create_dynamodb_table cs)) (\<lambda>table_arn.
     bind (create_iam_role env sfx) (\<lambda>role_arn.
     bind (step_value (create_sns_topic cs)) (\<lambda>topic_arn.
     bind (step_value (create_lambda cs LAMBDA_LOAD_NAME role_arn)) (\<lambda>lambda_load_arn.
     bind (step_value (create_lambda cs LAMBDA_API_NAME role_arn)) (\<lambda>lambda_api_arn.
     bind (step_value (create_lambda cs LAMBDA_NOTIFY_NAME role_arn)) (\<lambda>lambda_notify_arn.
     seq (step (add_s3_trigger_to_lambda cs))
    (seq (step (add_stream_trigger_to_lambda cs))
    (bind (step_value (create_api_gateway cs)) (\<lambda>(api, api_endpoint).
     bind (step_value (upload_web_content cs)) (\<lambda>web_url.
     seq (step (write_record cs))
         (return (config_of now region sfx api api_endpoint web_url topic_arn)))))))))))))"

text \<open>
  \<open>main\<close>: the exit code, the record written if one was, and the events. An exception
  of the body is printed and the command exits with code 1.
\<close>

definition deploy_main ::
  "deploy_call provider \<Rightarrow> creation_steps \<Rightarrow> deployment_record option \<Rightarrow> string \<Rightarrow> string \<Rightarrow>
   nat \<times> written_record option \<times> deploy_call event list" where
  "deploy_main env cs existing now region =
     (case deployment env cs now region (SUFFIX existing) [] of
        (Inr config, h) \<Rightarrow> (0, Some config, h)
      | (Inl e, h) \<Rightarrow> (1, None, h @ [Print Cross ''ERROR'']))"

text \<open>
  The example: a lab account, where \<open>LabRole\<close> exists, and creation steps that all
  succeed.
\<close>

definition lab_account :: "deploy_call provider" where
  "lab_account =
     \<lparr>raises = (\<lambda>h c. case c of
          GetRole name \<Rightarrow>
            if name = ''LabRole'' then None
            else Some (ClientError ''NoSuchEntity'' ''The role cannot be found'')
        | _ \<Rightarrow> Some (ClientError ''AccessDenied'' ''not authorized'')),
      listing = (\<lambda>h c. []),
      text_of = (\<lambda>h c. ''arn:aws:iam::123456789012:role/LabRole''),
      pairs = (\<lambda>h c. []), flag = (\<lambda>h c. False), versions = (\<lambda>h c. [])\<rparr>"

definition all_created :: creation_steps where
  "all_created =
     \<lparr>create_s3_buckets = None,
      create_dynamodb_table = Inr ''arn:aws:dynamodb:us-east-1:123456789012:table/Inventory'',
      create_sns_topic = Inr ''arn:aws:sns:us-east-1:123456789012:low-stock-inventory-main'',
      create_lambda = (\<lambda>name role_arn. Inr (''arn:aws:lambda:us-east-1:123456789012:function:'' @ name)),
      add_s3_trigger_to_lambda = None,
      add_stream_trigger_to_lambda = None,
      create_api_gateway =
        Inr (''a1b2c3d4e5'', ''https://a1b2c3d4e5.execute-api.us-east-1.amazonaws.com/prod''),
      upload_web_content =
        Inr (Some ''http://inventory-web-inventory-main.s3-website-us-east-1.amazonaws.com''),
      write_record = None\<rparr>"

section \<open>Properties of the notification function\<close>

lemma py_int_examples:
  "py_int ''30'' = Some 30" "py_int ''12.5'' = None" "py_int '' -7 '' = Some (-7)"
  "py_int ''1_000'' = Some 1000" "py_int '''' = None" "py_int ''1__0'' = None"
  by (simp_all add: py_int_def py_strip_def is_space_def py_nat_def is_digit_def digit_val_def)











text \<open>
  C10. An INSERT or MODIFY record whose new image has no Count attribute is read as a
  count of 0, which is below the threshold: the handler issues the alert for it, with
  stock 0, and counts it when the topic accepts the call.
\<close>

theorem notify_missing_count_is_zero:
  assumes "eventName r = Some ''INSERT'' \<or> eventName r = Some ''MODIFY''"
    and "new_image r ''Count'' = None"
  shows "image_count (new_image r) = Inr 0 \<and> (0::int) < LOW_STOCK_THRESHOLD \<and>
         notify_lambda_handler P \<lparr>Records = Some [r]\<rparr>
         = ((200, Processed (if P [] (alert (image_text (new_image r) ''Store'')
                                         (image_text (new_image r) ''Item'') 0) then 0 else 1)),
            [alert (image_text (new_image r) ''Store'') (image_text (new_image r) ''Item'') 0])"
proof -
  have c: "image_count (new_image r) = Inr 0"
    using assms(2) by (simp add: image_count_def)
  have t: "(0::int) < LOW_STOCK_THRESHOLD" by (simp add: LOW_STOCK_THRESHOLD_def)
  from assms(1) obtain e where e: "eventName r = Some e" "e = ''INSERT'' \<or> e = ''MODIFY''"
    by auto
  have "notify_lambda_handler P \<lparr>Records = Some [r]\<rparr>
         = ((200, Processed (if P [] (alert (image_text (new_image r) ''Store'')
                                         (image_text (new_image r) ''Item'') 0) then 0 else 1)),
            [alert (image_text (new_image r) ''Store'') (image_text (new_image r) ''Item'') 0])"
    using e c by (auto simp: notify_lambda_handler_def LOW_STOCK_THRESHOLD_def Let_def)
  with c t show ?thesis by simp
qed

text \<open>An INSERT whose image holds a Store and an Item and no Count: one alert, stock 0.\<close>

theorem notify_missing_count_is_zero_witness:
  "notify_lambda_handler (\<lambda>cs m. False)
      \<lparr>Records = Some
        [\<lparr>eventName = Some ''INSERT'',
          dynamodb = Some \<lparr>NewImage = Some
            [''Store'' \<mapsto> [''S'' \<mapsto> ''Berlin''], ''Item'' \<mapsto> [''S'' \<mapsto> ''Widget-001'']]\<rparr>\<rparr>]\<rparr>
   = ((200, Processed 1),
      [\<lparr>Subject = ''[ALERTA] Stock bajo: Widget-001 en Berlin'',
        Tienda = ''Berlin'', Articulo = ''Widget-001'', Stock_actual = 0\<rparr>])"
  using notify_missing_count_is_zero
    [of "\<lparr>eventName = Some ''INSERT'',
          dynamodb = Some \<lparr>NewImage = Some
            [''Store'' \<mapsto> [''S'' \<mapsto> ''Berlin''], ''Item'' \<mapsto> [''S'' \<mapsto> ''Widget-001'']]\<rparr>\<rparr>"
        "\<lambda>cs m. False"]
  by (simp add: alert_def image_text_def new_image_def)

section \<open>Properties of the ingestion function\<close>





text \<open>
  C9. With no record in the event (an empty \<open>Records\<close> list, or none at all), the
  handler answers 500: the success response reads \<open>items_inserted\<close>, which no statement
  has assigned. Nothing is put.
\<close>

theorem load_empty_event_is_500:
  "load_lambda_handler get_object put_raises \<lparr>S3Records = Some []\<rparr>
     = ((500, LoadError (UnboundLocalError ''items_inserted'')), []) \<and>
   load_lambda_handler get_object put_raises \<lparr>S3Records = None\<rparr>
     = ((500, LoadError (UnboundLocalError ''items_inserted'')), [])"
  by (simp add: load_lambda_handler_def)

section \<open>Properties of the query function\<close>

















section \<open>Properties of runs\<close>

lemma bind_Inr: "m h = (Inr x, h') \<Longrightarrow> bind m f h = f x h'"
  by (simp add: bind_def)

lemma bind_Inl: "m h = (Inl e, h') \<Longrightarrow> bind m f h = (Inl e, h')"
  by (simp add: bind_def)

lemma seq_Inr: "m h = (Inr u, h') \<Longrightarrow> seq m k h = k h'"
  by (simp add: seq_def bind_def)

lemma seq_Inl: "m h = (Inl e, h') \<Longrightarrow> seq m k h = (Inl e, h')"
  by (simp add: seq_def bind_def)

lemma steps_append: "steps (ms @ ks) = seq (steps ms) (steps ks)"
proof (induction ms)
  case Nil
  show ?case by (rule ext) (simp add: seq_def bind_def return_def)
next
  case (Cons m ms)
  show ?case
    by (rule ext) (simp add: Cons.IH seq_def bind_def split: prod.splits sum.splits)
qed

lemma emitsI:
  assumes "\<And>h. \<exists>es. snd (m h) = h @ es \<and> set es \<subseteq> S"
  shows "emits S m"
  using assms by (simp add: emits_def)

lemma emitsD:
  assumes "emits S m"
  obtains es where "snd (m h) = h @ es" and "set es \<subseteq> S"
  using assms unfolding emits_def by (elim allE[of _ h] exE conjE)

lemma emits_mono: "emits S m \<Longrightarrow> S \<subseteq> T \<Longrightarrow> emits T m"
  unfolding emits_def by (meson subset_trans)

lemma emits_return: "emits S (return x)"
  by (simp add: emits_def return_def)

lemma emits_print: "Print m s \<in> S \<Longrightarrow> emits S (print m s)"
  by (simp add: emits_def print_def)

lemma emits_call: "Call c \<in> S \<Longrightarrow> emits S (call env c)"
  by (simp add: emits_def call_def)

lemma emits_call_listing: "Call c \<in> S \<Longrightarrow> emits S (call_listing env c)"
  by (simp add: emits_def call_listing_def)

lemma emits_call_versions: "Call c \<in> S \<Longrightarrow> emits S (call_versions env c)"
  by (simp add: emits_def call_versions_def)

lemma emits_bind:
  assumes "emits S m" and "\<And>x. emits S (f x)"
  shows "emits S (bind m f)"
proof (rule emitsI)
  fix h
  from assms(1) obtain es where es: "snd (m h) = h @ es" "set es \<subseteq> S" by (rule emitsD)
  show "\<exists>es. snd (bind m f h) = h @ es \<and> set es \<subseteq> S"
  proof (cases "fst (m h)")
    case (Inl e)
    then have "m h = (Inl e, h @ es)" using es(1) by (simp add: prod_eq_iff)
    then have "snd (bind m f h) = h @ es" by (simp add: bind_def)
    with es(2) show ?thesis by (intro exI conjI)
  next
    case (Inr x)
    then have run: "m h = (Inr x, h @ es)" using es(1) by (simp add: prod_eq_iff)
    from assms(2)[of x] obtain fs where fs: "snd (f x (h @ es)) = (h @ es) @ fs" "set fs \<subseteq> S"
      by (rule emitsD)
    have "snd (bind m f h) = h @ (es @ fs)" using run fs(1) by (simp add: bind_def)
    moreover have "set (es @ fs) \<subseteq> S" using es(2) fs(2) by simp
    ultimately show ?thesis by (intro exI conjI)
  qed
qed

lemma emits_seq: "emits S m \<Longrightarrow> emits S k \<Longrightarrow> emits S (seq m k)"
  unfolding seq_def by (rule emits_bind)

lemma emits_steps: "(\<And>m. m \<in> set ms \<Longrightarrow> emits S m) \<Longrightarrow> emits S (steps ms)"
proof (induction ms)
  case Nil
  show ?case by (simp add: emits_return)
next
  case (Cons m ms)
  have "emits S m" by (rule Cons.prems) simp
  moreover have "emits S (steps ms)" by (rule Cons.IH) (rule Cons.prems, simp)
  ultimately show ?case by (simp add: emits_seq)
qed

lemma emits_for_each: "(\<And>x. emits S (body x)) \<Longrightarrow> emits S (for_each xs body)"
  unfolding for_each_def by (rule emits_steps) auto

lemma emits_catch:
  assumes "emits S m" and "\<And>e. emits S (handler e)"
  shows "emits S (catch m handler)"
proof (rule emitsI)
  fix h
  from assms(1) obtain es where es: "snd (m h) = h @ es" "set es \<subseteq> S" by (rule emitsD)
  show "\<exists>es. snd (catch m handler h) = h @ es \<and> set es \<subseteq> S"
  proof (cases "fst (m h)")
    case (Inr x)
    then have "m h = (Inr x, h @ es)" using es(1) by (simp add: prod_eq_iff)
    then have "snd (catch m handler h) = h @ es" by (simp add: catch_def)
    with es(2) show ?thesis by (intro exI conjI)
  next
    case (Inl e)
    then have run: "m h = (Inl e, h @ es)" using es(1) by (simp add: prod_eq_iff)
    from assms(2)[of e] obtain fs where
      fs: "snd (handler e (h @ es)) = (h @ es) @ fs" "set fs \<subseteq> S"
      by (rule emitsD)
    have "snd (catch m handler h) = h @ (es @ fs)" using run fs(1) by (simp add: catch_def)
    moreover have "set (es @ fs) \<subseteq> S" using es(2) fs(2) by simp
    ultimately show ?thesis by (intro exI conjI)
  qed
qed

lemma catch_client_catch:
  "catch_client m handler
   = catch m (\<lambda>e. case e of ClientError code msg \<Rightarrow> handler code msg | _ \<Rightarrow> raise e)"
  by (rule ext) (simp add: catch_client_def catch_def raise_def split: prod.splits sum.splits exn.splits)

lemma emits_raise: "emits S (raise e)"
  by (simp add: emits_def raise_def)

lemma emits_catch_client:
  assumes "emits S m" and "\<And>code msg. emits S (handler code msg)"
  shows "emits S (catch_client m handler)"
  unfolding catch_client_catch
proof (rule emits_catch[OF assms(1)])
  fix e
  show "emits S (case e of ClientError code msg \<Rightarrow> handler code msg | _ \<Rightarrow> raise e)"
    by (cases e) (simp_all add: assms(2) emits_raise)
qed

text \<open>A loop of calls that do not raise issues them all.\<close>

lemma for_each_calls:
  assumes "\<And>h x. raises env h (f x) = None"
  shows "for_each xs (\<lambda>x. call env (f x)) h = (Inr (), h @ map (\<lambda>x. Call (f x)) xs)"
proof (induction xs arbitrary: h)
  case Nil
  show ?case by (simp add: for_each_def return_def)
next
  case (Cons x xs)
  have one: "call env (f x) h = (Inr (), h @ [Call (f x)])"
    using assms by (simp add: call_def)
  have "for_each (x # xs) (\<lambda>x. call env (f x)) h
        = for_each xs (\<lambda>x. call env (f x)) (h @ [Call (f x)])"
    using one by (simp add: for_each_def seq_def bind_def)
  then show ?case by (simp add: Cons.IH)
qed



section \<open>Properties of the teardown command\<close>

lemma only_Print: "Print m s \<in> only k"
  by (simp add: only_def)

lemma only_Call: "(Call c \<in> only k) = (resource_of c = k)"
  by (simp add: only_def)

lemma emits_unlink_record: "emits (only RecordFile) (unlink_record env)"
  unfolding unlink_record_def
  by (intro emits_catch emits_seq emits_call emits_print emits_return)
     (simp_all add: only_Print only_Call)

lemma emits_delete_mappings: "emits (only Function) (delete_mappings env f)"
  unfolding delete_mappings_def
  by (intro emits_catch emits_bind emits_for_each emits_seq emits_call emits_call_listing
        emits_print emits_return)
     (simp_all add: only_Print only_Call)

lemma emits_delete_lambda: "emits (only Function) (delete_lambda env f)"
  unfolding delete_lambda_def
  by (intro emits_catch_client emits_seq emits_call emits_print emits_delete_mappings)
     (simp_all add: only_Print only_Call emits_print)

lemma emits_delete_api_gateway: "emits (only Api) (delete_api_gateway env a)"
  unfolding delete_api_gateway_def
  by (intro emits_catch_client emits_seq emits_call emits_print)
     (simp_all add: only_Print only_Call emits_print)

lemma emits_delete_dynamodb_table: "emits (only Table) (delete_dynamodb_table env t)"
  unfolding delete_dynamodb_table_def
  by (intro emits_catch_client emits_steps)
     (auto simp: only_Print only_Call emits_print emits_call)

lemma emits_suspend_versioning: "emits (only (Bucket b)) (suspend_versioning env b)"
  unfolding suspend_versioning_def
  by (intro emits_catch emits_seq emits_call emits_print emits_return)
     (simp_all add: only_Print only_Call)

lemma emits_empty_s3_bucket: "emits (only (Bucket b)) (empty_s3_bucket env b)"
  unfolding empty_s3_bucket_def
proof (intro emits_catch emits_seq emits_bind emits_for_each emits_call emits_call_versions
    emits_print emits_suspend_versioning)
  fix e
  show "emits (only (Bucket b))
          (case e of
             ClientError code msg \<Rightarrow>
               if code = ''NoSuchBucket'' then print Info b else print Warn b
           | _ \<Rightarrow> print Warn b)"
    by (cases e) (simp_all add: emits_print only_Print)
qed (simp_all add: only_Print only_Call)

lemma emits_delete_s3_bucket: "emits (only (Bucket b)) (delete_s3_bucket env b)"
  unfolding delete_s3_bucket_def
  by (intro emits_catch_client emits_seq emits_call emits_print)
     (simp_all add: only_Print only_Call emits_print)

lemma emits_delete_role_policies: "emits (only Role) (delete_role_policies env r)"
  unfolding delete_role_policies_def
  by (intro emits_catch emits_bind emits_for_each emits_seq emits_call emits_call_listing
        emits_print emits_return)
     (simp_all add: only_Print only_Call)

lemma emits_delete_iam_role: "emits (only Role) (delete_iam_role env r)"
  unfolding delete_iam_role_def
  by (intro emits_catch_client emits_seq emits_call emits_print emits_delete_role_policies)
     (simp_all add: only_Print only_Call emits_print)

lemma emits_delete_topic: "emits (only Topic) (delete_topic env arn)"
proof (cases "py_in ''low-stock'' arn")
  case False
  then show ?thesis by (simp add: delete_topic_def emits_return)
next
  case True
  have "emits (only Topic)
     (catch_client
          (bind (call_listing env (ListSubscriptionsByTopic arn))
             (\<lambda>subs.
                seq (for_each subs
                       (\<lambda>sub. catch_client (seq (call env (Unsubscribe sub)) (print Tick sub))
                                            (\<lambda>code msg. return ())))
                    (seq (call env (DeleteTopic arn)) (print Tick arn))))
          (\<lambda>code msg. print Warn arn))"
    by (intro emits_catch_client emits_bind emits_for_each emits_seq emits_call
          emits_call_listing emits_print emits_return)
       (simp_all add: only_Print only_Call)
  with True show ?thesis by (simp add: delete_topic_def)
qed

lemma emits_delete_all_low_stock_topics: "emits (only Topic) (delete_all_low_stock_topics env)"
  unfolding delete_all_low_stock_topics_def
  by (intro emits_bind emits_for_each emits_call_listing emits_delete_topic)
     (simp_all add: only_Call)




text \<open>The batches: none is empty, and they are the slices of a thousand, in order.\<close>

lemma batches_slices:
  "batches xs = map (\<lambda>j. take 1000 (drop (j * 1000) xs)) [0 ..< (length xs + 999) div 1000]"
proof -
  define slices where
    "slices = map (\<lambda>j. take 1000 (drop (j * 1000) xs)) [0 ..< (length xs + 999) div 1000]"
  have "take 1000 (drop (j * 1000) xs) \<noteq> []" if "j < (length xs + 999) div 1000" for j
  proof -
    from that have "j * 1000 < length xs" by arith
    then show ?thesis by simp
  qed
  then have all: "\<forall>batch \<in> set slices. batch \<noteq> []"
    unfolding slices_def by auto
  have r: "(length xs + 1000 - 1) div 1000 = (length xs + 999) div 1000" by simp
  have "batches xs = filter (\<lambda>batch. batch \<noteq> []) slices"
    unfolding slices_def batches_def py_range_step_def r by (simp only: map_map comp_def)
  also have "\<dots> = slices" using all by (rule filter_True)
  finally show ?thesis unfolding slices_def .
qed

lemma slices_concat:
  "concat (map (\<lambda>j. take k (drop (j * k) xs)) [0 ..< m]) = take (m * k) xs"
proof (induction m)
  case 0
  show ?case by simp
next
  case (Suc m)
  have "Suc m * k = m * k + k" by simp
  then have "take (Suc m * k) xs = take (m * k) xs @ take k (drop (m * k) xs)"
    by (simp only: take_add)
  then show ?case using Suc.IH by simp
qed

lemma batches_concat: "concat (batches xs) = xs"
proof -
  have "length xs \<le> (length xs + 999) div 1000 * 1000" by arith
  then show ?thesis by (simp add: batches_slices slices_concat)
qed

lemma batches_length: "length (batches xs) = (length xs + 999) div 1000"
  by (simp add: batches_slices)

lemma batches_size:
  assumes "batch \<in> set (batches xs)"
  shows "batch \<noteq> [] \<and> length batch \<le> 1000"
proof -
  from assms have "batch \<noteq> []" by (simp add: batches_def)
  moreover from assms have "length batch \<le> 1000" by (auto simp: batches_slices)
  ultimately show ?thesis by simp
qed

lemma all_deletes_set:
  "set (all_deletes pages)
   = (\<Union>page \<in> set pages. set (case Versions page of None \<Rightarrow> [] | Some vs \<Rightarrow> vs)
                          \<union> set (case DeleteMarkers page of None \<Rightarrow> [] | Some ms \<Rightarrow> ms))"
  by (auto simp: all_deletes_def objects_to_delete_def delete_markers_def)

lemma suspend_versioning_run:
  "suspend_versioning env b h
   = (Inr (), h @ Call (SuspendVersioning b)
        # (if raises env h (SuspendVersioning b) = None then [Print Tick b] else []))"
  by (simp add: suspend_versioning_def catch_def seq_def bind_def call_def print_def return_def
      split: option.splits)

text \<open>Emptying a bucket when the listing and the batched deletes return.\<close>

lemma empty_s3_bucket_run:
  assumes list: "\<And>h. raises env h (ListObjectVersions b) = None"
    and del: "\<And>h batch. raises env h (DeleteObjects b batch) = None"
  shows "\<exists>susp. empty_s3_bucket env b h
           = (Inr (), (h @ susp) @ bucket_events b (versions env (h @ susp) (ListObjectVersions b)))
         \<and> Call (DeleteBucket b) \<notin> set susp"
proof -
  define susp where "susp = Call (SuspendVersioning b)
        # (if raises env h (SuspendVersioning b) = None then [Print Tick b] else [])"
  define h1 where "h1 = h @ susp"
  define pages where "pages = versions env h1 (ListObjectVersions b)"
  define h2 where "h2 = h1 @ [Call (ListObjectVersions b)]"
  define h3 where "h3 = h2 @ map (\<lambda>batch. Call (DeleteObjects b batch)) (batches (all_deletes pages))"
  have s: "suspend_versioning env b h = (Inr (), h1)"
    unfolding susp_def h1_def by (rule suspend_versioning_run)
  have l: "call_versions env (ListObjectVersions b) h1 = (Inr pages, h2)"
    using list by (simp add: call_versions_def pages_def h2_def)
  have d: "for_each (batches (all_deletes pages)) (\<lambda>batch. call env (DeleteObjects b batch)) h2
           = (Inr (), h3)"
    unfolding h3_def by (rule for_each_calls) (rule del)
  have "empty_s3_bucket env b h = (Inr (), h3 @ [Print Tick b])"
    by (simp add: empty_s3_bucket_def catch_def seq_def bind_def s l d print_def)
  also have "h3 @ [Print Tick b] = h1 @ bucket_events b pages"
    by (simp add: h3_def h2_def bucket_events_def)
  finally have "empty_s3_bucket env b h
      = (Inr (), (h @ susp) @ bucket_events b (versions env (h @ susp) (ListObjectVersions b)))"
    unfolding pages_def h1_def .
  moreover have "Call (DeleteBucket b) \<notin> set susp" by (simp add: susp_def)
  ultimately show ?thesis by (intro exI conjI)
qed

lemma delete_s3_bucket_run:
  "\<exists>prints. snd (delete_s3_bucket env b h) = h @ Call (DeleteBucket b) # prints"
proof -
  have "emits (only (Bucket b)) (catch_client (print Tick b)
          (\<lambda>code msg. if code = ''NoSuchBucket'' then print Info b else print Warn b))"
    by (intro emits_catch_client emits_print) (simp_all add: only_Print emits_print)
  show ?thesis
    by (cases "raises env h (DeleteBucket b)")
       (auto simp: delete_s3_bucket_def catch_client_def seq_def bind_def call_def print_def
          split: exn.splits)
qed

text \<open>
  A list of statements in which a bucket is emptied and then deleted, after statements
  that do not delete it: when the delete call is issued at all, the emptying is what
  comes right before it.
\<close>

lemma bucket_stage:
  assumes ms: "ms = before @ empty_s3_bucket env b # delete_s3_bucket env b # after"
    and before: "\<And>m. m \<in> set before \<Longrightarrow> emits {e. e \<noteq> Call (DeleteBucket b)} m"
    and after: "\<And>m. m \<in> set after \<Longrightarrow> emits UNIV m"
    and list: "\<And>h. raises env h (ListObjectVersions b) = None"
    and del: "\<And>h batch. raises env h (DeleteObjects b batch) = None"
    and reach: "Call (DeleteBucket b) \<in> set (snd (steps ms []))"
  shows "\<exists>pre post. snd (steps ms [])
           = pre @ bucket_events b (versions env pre (ListObjectVersions b))
               @ Call (DeleteBucket b) # post
         \<and> Call (DeleteBucket b) \<notin> set pre"
proof -
  have split: "steps ms = seq (steps before)
      (seq (empty_s3_bucket env b) (seq (delete_s3_bucket env b) (steps after)))"
    unfolding ms by (simp add: steps_append)
  have "emits {e. e \<noteq> Call (DeleteBucket b)} (steps before)"
    by (rule emits_steps) (rule before)
  then obtain h1 where h1: "snd (steps before []) = [] @ h1" "set h1 \<subseteq> {e. e \<noteq> Call (DeleteBucket b)}"
    by (rule emitsD)
  show ?thesis
  proof (cases "fst (steps before [])")
    case (Inl e)
    then have "steps before [] = (Inl e, h1)" using h1(1) by (simp add: prod_eq_iff)
    then have "snd (steps ms []) = h1" unfolding split by (simp add: seq_def bind_def)
    with reach h1(2) show ?thesis by auto
  next
    case (Inr u)
    then have b0: "steps before [] = (Inr (), h1)" using h1(1) by (simp add: prod_eq_iff)
    from empty_s3_bucket_run[OF list del, of h1] obtain susp where
      e: "empty_s3_bucket env b h1
           = (Inr (), (h1 @ susp) @ bucket_events b (versions env (h1 @ susp) (ListObjectVersions b)))"
      and su: "Call (DeleteBucket b) \<notin> set susp"
      by (elim exE conjE)
    define h2 where "h2 = (h1 @ susp) @ bucket_events b (versions env (h1 @ susp) (ListObjectVersions b))"
    from delete_s3_bucket_run[of env b h2] obtain prints where
      d: "snd (delete_s3_bucket env b h2) = h2 @ Call (DeleteBucket b) # prints"
      by (elim exE)
    have "emits UNIV (steps after)" by (rule emits_steps) (rule after)
    then obtain fs where
      fs: "snd (steps after (h2 @ Call (DeleteBucket b) # prints))
           = (h2 @ Call (DeleteBucket b) # prints) @ fs"
      by (rule emitsD)
    have run: "steps ms [] = seq (delete_s3_bucket env b) (steps after) h2"
      unfolding split using b0 e by (simp add: seq_def bind_def h2_def)
    have "\<exists>post. snd (steps ms []) = h2 @ Call (DeleteBucket b) # post"
    proof (cases "fst (delete_s3_bucket env b h2)")
      case (Inl x)
      then have "delete_s3_bucket env b h2 = (Inl x, h2 @ Call (DeleteBucket b) # prints)"
        using d by (simp add: prod_eq_iff)
      then have "snd (steps ms []) = h2 @ Call (DeleteBucket b) # prints"
        unfolding run by (simp add: seq_def bind_def)
      then show ?thesis by (intro exI)
    next
      case (Inr x)
      then have "delete_s3_bucket env b h2 = (Inr (), h2 @ Call (DeleteBucket b) # prints)"
        using d by (simp add: prod_eq_iff)
      then have "snd (steps ms []) = h2 @ Call (DeleteBucket b) # (prints @ fs)"
        unfolding run using fs by (simp add: seq_def bind_def)
      then show ?thesis by (intro exI)
    qed
    then obtain post where post: "snd (steps ms []) = h2 @ Call (DeleteBucket b) # post"
      by (elim exE)
    have "snd (steps ms []) = (h1 @ susp) @ bucket_events b (versions env (h1 @ susp) (ListObjectVersions b))
               @ Call (DeleteBucket b) # post"
      using post by (simp add: h2_def)
    moreover have "Call (DeleteBucket b) \<notin> set (h1 @ susp)"
      using h1(2) su by auto
    ultimately show ?thesis by (intro exI conjI)
  qed
qed

lemma only_not_bucket:
  assumes "k \<noteq> Bucket b"
  shows "only k \<subseteq> {e. e \<noteq> Call (DeleteBucket b)}"
  using assms by (auto simp: only_def)

lemma teardown_run:
  "snd (destroy_main env config si) = snd (steps (teardown env config) []) \<or>
   snd (destroy_main env config si) = snd (steps (teardown env config) []) @ [Print Cross ''ERROR'']"
  by (cases "steps (teardown env config) []") (auto simp: destroy_main_def split: sum.splits)

text \<open>
  C4. In a confirmed teardown in which the listing of a bucket's versions and the batched
  deletes on it return, whenever the call that deletes the bucket is issued, what comes
  right before it is the emptying of that bucket: the listing, then one batched delete
  per batch, and no earlier call deletes the bucket. The batches are the entries the
  listing gave, every version and every delete marker of every page, cut in order into
  runs of at most 1000: 1500 entries make 2 batched delete calls.
\<close>

theorem destroy_empties_bucket_before_deleting:
  assumes bucket: "b = bucket_uploads config \<or>
                   (b = bucket_web config \<and> bucket_web config \<noteq> bucket_uploads config)"
    and list: "\<And>h. raises env h (ListObjectVersions b) = None"
    and del: "\<And>h batch. raises env h (DeleteObjects b batch) = None"
    and reach: "Call (DeleteBucket b) \<in> set (snd (destroy_main env config si))"
  shows "(\<exists>pre post. snd (destroy_main env config si)
            = pre @ bucket_events b (versions env pre (ListObjectVersions b))
                @ Call (DeleteBucket b) # post
          \<and> Call (DeleteBucket b) \<notin> set pre) \<and>
         bucket_events b pages
           = Call (ListObjectVersions b)
             # map (\<lambda>batch. Call (DeleteObjects b batch)) (batches (all_deletes pages))
             @ [Print Tick b] \<and>
         set (all_deletes pages)
           = (\<Union>page \<in> set pages. set (case Versions page of None \<Rightarrow> [] | Some vs \<Rightarrow> vs)
                  \<union> set (case DeleteMarkers page of None \<Rightarrow> [] | Some ms \<Rightarrow> ms)) \<and>
         concat (batches (all_deletes pages)) = all_deletes pages \<and>
         (\<forall>batch \<in> set (batches (all_deletes pages)). batch \<noteq> [] \<and> length batch \<le> 1000) \<and>
         length (batches (all_deletes pages)) = (length (all_deletes pages) + 999) div 1000 \<and>
         (length (all_deletes pages) = 1500 \<longrightarrow> length (batches (all_deletes pages)) = 2)"
proof -
  have reach': "Call (DeleteBucket b) \<in> set (snd (steps (teardown env config) []))"
    using reach teardown_run[of env config] by auto
  have stage: "\<exists>pre post. snd (steps (teardown env config) [])
            = pre @ bucket_events b (versions env pre (ListObjectVersions b))
                @ Call (DeleteBucket b) # post
          \<and> Call (DeleteBucket b) \<notin> set pre"
    using bucket
  proof
    assume b: "b = bucket_uploads config"
    define before where "before = [unlink_record env,
      delete_lambda env (lambda_load config), delete_lambda env (lambda_api config),
      delete_lambda env (lambda_notify config), delete_api_gateway env (api_id config),
      delete_dynamodb_table env (table_name config)]"
    define after where "after = [empty_s3_bucket env (bucket_web config),
      delete_s3_bucket env (bucket_web config), delete_iam_role env (iam_role config),
      delete_all_low_stock_topics env]"
    have ms: "teardown env config = before @ empty_s3_bucket env b # delete_s3_bucket env b # after"
      by (simp add: teardown_def before_def after_def b)
    have bf: "emits {e. e \<noteq> Call (DeleteBucket b)} m" if "m \<in> set before" for m
    proof -
      from that consider "m = unlink_record env" | f where "m = delete_lambda env f"
        | "m = delete_api_gateway env (api_id config)"
        | "m = delete_dynamodb_table env (table_name config)"
        by (auto simp: before_def)
      then show ?thesis
      proof cases
        case 1 then show ?thesis
          using emits_mono[OF emits_unlink_record only_not_bucket] by simp
      next
        case 2 then show ?thesis
          using emits_mono[OF emits_delete_lambda only_not_bucket] by simp
      next
        case 3 then show ?thesis
          using emits_mono[OF emits_delete_api_gateway only_not_bucket] by simp
      next
        case 4 then show ?thesis
          using emits_mono[OF emits_delete_dynamodb_table only_not_bucket] by simp
      qed
    qed
    have af: "emits UNIV m" if "m \<in> set after" for m
    proof -
      from that consider "m = empty_s3_bucket env (bucket_web config)"
        | "m = delete_s3_bucket env (bucket_web config)"
        | "m = delete_iam_role env (iam_role config)"
        | "m = delete_all_low_stock_topics env"
        by (auto simp: after_def)
      then show ?thesis
      proof cases
        case 1 then show ?thesis using emits_mono[OF emits_empty_s3_bucket subset_UNIV] by simp
      next
        case 2 then show ?thesis using emits_mono[OF emits_delete_s3_bucket subset_UNIV] by simp
      next
        case 3 then show ?thesis using emits_mono[OF emits_delete_iam_role subset_UNIV] by simp
      next
        case 4 then show ?thesis
          using emits_mono[OF emits_delete_all_low_stock_topics subset_UNIV] by simp
      qed
    qed
    show ?thesis by (rule bucket_stage[OF ms bf af list del reach'])
  next
    assume "b = bucket_web config \<and> bucket_web config \<noteq> bucket_uploads config"
    then have b: "b = bucket_web config" and other: "Bucket (bucket_uploads config) \<noteq> Bucket b"
      by auto
    define before where "before = [unlink_record env,
      delete_lambda env (lambda_load config), delete_lambda env (lambda_api config),
      delete_lambda env (lambda_notify config), delete_api_gateway env (api_id config),
      delete_dynamodb_table env (table_name config),
      empty_s3_bucket env (bucket_uploads config), delete_s3_bucket env (bucket_uploads config)]"
    define after where "after = [delete_iam_role env (iam_role config),
      delete_all_low_stock_topics env]"
    have ms: "teardown env config = before @ empty_s3_bucket env b # delete_s3_bucket env b # after"
      by (simp add: teardown_def before_def after_def b)
    have bf: "emits {e. e \<noteq> Call (DeleteBucket b)} m" if "m \<in> set before" for m
    proof -
      from that consider "m = unlink_record env" | f where "m = delete_lambda env f"
        | "m = delete_api_gateway env (api_id config)"
        | "m = delete_dynamodb_table env (table_name config)"
        | "m = empty_s3_bucket env (bucket_uploads config)"
        | "m = delete_s3_bucket env (bucket_uploads config)"
        by (auto simp: before_def)
      then show ?thesis
      proof cases
        case 1 then show ?thesis
          using emits_mono[OF emits_unlink_record only_not_bucket] by simp
      next
        case 2 then show ?thesis
          using emits_mono[OF emits_delete_lambda only_not_bucket] by simp
      next
        case 3 then show ?thesis
          using emits_mono[OF emits_delete_api_gateway only_not_bucket] by simp
      next
        case 4 then show ?thesis
          using emits_mono[OF emits_delete_dynamodb_table only_not_bucket] by simp
      next
        case 5 then show ?thesis
          using emits_mono[OF emits_empty_s3_bucket only_not_bucket[OF other]] by simp
      next
        case 6 then show ?thesis
          using emits_mono[OF emits_delete_s3_bucket only_not_bucket[OF other]] by simp
      qed
    qed
    have af: "emits UNIV m" if "m \<in> set after" for m
    proof -
      from that consider "m = delete_iam_role env (iam_role config)"
        | "m = delete_all_low_stock_topics env"
        by (auto simp: after_def)
      then show ?thesis
      proof cases
        case 1 then show ?thesis using emits_mono[OF emits_delete_iam_role subset_UNIV] by simp
      next
        case 2 then show ?thesis
          using emits_mono[OF emits_delete_all_low_stock_topics subset_UNIV] by simp
      qed
    qed
    show ?thesis by (rule bucket_stage[OF ms bf af list del reach'])
  qed
  then obtain pre post where st:
    "snd (steps (teardown env config) [])
            = pre @ bucket_events b (versions env pre (ListObjectVersions b))
                @ Call (DeleteBucket b) # post"
    "Call (DeleteBucket b) \<notin> set pre"
    by (elim exE conjE)
  have main: "\<exists>pre post. snd (destroy_main env config si)
            = pre @ bucket_events b (versions env pre (ListObjectVersions b))
                @ Call (DeleteBucket b) # post
          \<and> Call (DeleteBucket b) \<notin> set pre"
    using teardown_run[of env config]
  proof
    assume "snd (destroy_main env config si) = snd (steps (teardown env config) [])"
    with st show ?thesis by (intro exI[of _ pre] exI[of _ post]) simp
  next
    assume "snd (destroy_main env config si)
            = snd (steps (teardown env config) []) @ [Print Cross ''ERROR'']"
    with st show ?thesis by (intro exI[of _ pre] exI[of _ "post @ [Print Cross ''ERROR'']"]) simp
  qed
  have size: "\<forall>batch \<in> set (batches (all_deletes pages)). batch \<noteq> [] \<and> length batch \<le> 1000"
    using batches_size by blast
  have two: "length (all_deletes pages) = 1500 \<longrightarrow> length (batches (all_deletes pages)) = 2"
    by (simp add: batches_length)
  show ?thesis
    using main size two
    by (simp add: bucket_events_def all_deletes_set batches_concat batches_length)
qed

lemmas destroy_run_defs = destroy_main_def teardown_def unlink_record_def delete_lambda_def
  delete_mappings_def delete_api_gateway_def delete_dynamodb_table_def empty_s3_bucket_def
  suspend_versioning_def delete_s3_bucket_def delete_iam_role_def delete_role_policies_def
  delete_all_low_stock_topics_def delete_topic_def
  seq_def bind_def catch_def catch_client_def call_def call_listing_def call_versions_def
  print_def return_def for_each_def batches_def py_range_step_def all_deletes_def
  objects_to_delete_def delete_markers_def


text \<open>
  The sample record and the quiet provider: the uploads bucket is deleted right after
  it was emptied; and the 1500 entries of the two-page listing make two batches.
\<close>

theorem destroy_empties_bucket_before_deleting_witness:
  "(\<exists>pre post. snd (destroy_main quiet_provider sample_config si)
            = pre @ bucket_events ''inventory-uploads-inventory-main''
                      (versions quiet_provider pre (ListObjectVersions ''inventory-uploads-inventory-main''))
                @ Call (DeleteBucket ''inventory-uploads-inventory-main'') # post
          \<and> Call (DeleteBucket ''inventory-uploads-inventory-main'') \<notin> set pre) \<and>
   length (all_deletes pages_1500) = 1500 \<and>
   length (batches (all_deletes pages_1500)) = 2"
proof -
  have bucket: "''inventory-uploads-inventory-main'' = bucket_uploads sample_config \<or>
      (''inventory-uploads-inventory-main'' = bucket_web sample_config \<and>
       bucket_web sample_config \<noteq> bucket_uploads sample_config)"
    by (simp add: sample_config_def)
  have list: "\<And>h. raises quiet_provider h (ListObjectVersions ''inventory-uploads-inventory-main'') = None"
    and del: "\<And>h batch. raises quiet_provider h (DeleteObjects ''inventory-uploads-inventory-main'' batch) = None"
    by (simp_all add: quiet_provider_def)
  have reach: "Call (DeleteBucket ''inventory-uploads-inventory-main'')
      \<in> set (snd (destroy_main quiet_provider sample_config si))"
    by (simp add: destroy_run_defs quiet_provider_def sample_config_def)
  have n: "length (all_deletes pages_1500) = 1500"
    by (simp add: pages_1500_def all_deletes_def objects_to_delete_def delete_markers_def)
  from destroy_empties_bucket_before_deleting[OF bucket list del reach, of pages_1500] n
  show ?thesis by simp
qed







lemma soft_call_versions: "client_only env \<Longrightarrow> soft (call_versions env c)"
  unfolding soft_def client_only_def call_versions_def by (auto split: option.splits)

























































section \<open>Properties of the validation command\<close>




















section \<open>Properties of the deployment command\<close>

lemma step_run:
  "step outcome h = (case outcome of None \<Rightarrow> (Inr (), h) | Some e \<Rightarrow> (Inl e, h))"
  by (simp add: step_def return_def raise_def split: option.splits)

lemma step_value_run:
  "step_value outcome h = (case outcome of Inl e \<Rightarrow> (Inl e, h) | Inr x \<Rightarrow> (Inr x, h))"
  by (simp add: step_value_def return_def raise_def split: sum.splits)

text \<open>
  A record is written, and the exit code is 0, only when the steps given to \<open>main\<close> have
  all returned.
\<close>

lemma deploy_record_after_all_steps:
  assumes "deploy_main env cs existing now region = (code, Some config, h)"
  shows "create_s3_buckets cs = None \<and> (\<exists>arn. create_dynamodb_table cs = Inr arn) \<and>
         (\<exists>arn. create_sns_topic cs = Inr arn) \<and>
         add_s3_trigger_to_lambda cs = None \<and> add_stream_trigger_to_lambda cs = None \<and>
         (\<exists>api. create_api_gateway cs = Inr api) \<and> (\<exists>url. upload_web_content cs = Inr url) \<and>
         write_record cs = None \<and> code = 0"
proof -
  obtain v h' where run: "deployment env cs now region (SUFFIX existing) [] = (v, h')"
    by (cases "deployment env cs now region (SUFFIX existing) []")
  with assms obtain c where v: "v = Inr c" and code: "code = 0"
    by (cases v) (auto simp: deploy_main_def)
  have ok: "fst (deployment env cs now region (SUFFIX existing) []) = Inr c"
    using run v by simp
  have 1: "create_s3_buckets cs = None"
    using ok by (cases "create_s3_buckets cs")
      (auto simp: deployment_def seq_def bind_def step_run)
  obtain t where 2: "create_dynamodb_table cs = Inr t"
    using ok 1 by (cases "create_dynamodb_table cs")
      (auto simp: deployment_def seq_def bind_def step_run step_value_run)
  obtain r hr where role: "create_iam_role env (SUFFIX existing) [] = (r, hr)"
    by (cases "create_iam_role env (SUFFIX existing) []")
  obtain ra where 3: "r = Inr ra"
    using ok 1 2 role by (cases r)
      (auto simp: deployment_def seq_def bind_def step_run step_value_run)
  note start = deployment_def seq_def bind_def step_run step_value_run 1 2 role 3
  obtain ta where 4: "create_sns_topic cs = Inr ta"
    using ok by (cases "create_sns_topic cs") (auto simp: start)
  obtain l1 where 5: "create_lambda cs LAMBDA_LOAD_NAME ra = Inr l1"
    using ok by (cases "create_lambda cs LAMBDA_LOAD_NAME ra") (auto simp: start 4)
  obtain l2 where 6: "create_lambda cs LAMBDA_API_NAME ra = Inr l2"
    using ok by (cases "create_lambda cs LAMBDA_API_NAME ra") (auto simp: start 4 5)
  obtain l3 where 7: "create_lambda cs LAMBDA_NOTIFY_NAME ra = Inr l3"
    using ok by (cases "create_lambda cs LAMBDA_NOTIFY_NAME ra") (auto simp: start 4 5 6)
  have 8: "add_s3_trigger_to_lambda cs = None"
    using ok by (cases "add_s3_trigger_to_lambda cs") (auto simp: start 4 5 6 7)
  have 9: "add_stream_trigger_to_lambda cs = None"
    using ok by (cases "add_stream_trigger_to_lambda cs") (auto simp: start 4 5 6 7 8)
  obtain api where 10: "create_api_gateway cs = Inr api"
    using ok by (cases "create_api_gateway cs") (auto simp: start 4 5 6 7 8 9)
  obtain url where 11: "upload_web_content cs = Inr url"
    using ok by (cases "upload_web_content cs")
      (auto simp: start 4 5 6 7 8 9 10 split: prod.splits)
  have 12: "write_record cs = None"
    using ok by (cases "write_record cs")
      (auto simp: start 4 5 6 7 8 9 10 11 split: prod.splits)
  show ?thesis using 1 2 4 8 9 10 11 12 code by simp
qed

text \<open>
  C2 at the failing input. In a lab account, where \<open>LabRole\<close> exists, with every other
  step succeeding: the command exits with code 0 and writes the record; the only provider
  call about a role was the look-up of \<open>LabRole\<close>, which is the role the functions got;
  the record's \<open>iam_role\<close> is \<open>lambda-inventory-role-inventory-main\<close>, a role that was
  neither created nor looked up in this run.
\<close>

theorem deploy_records_a_role_it_never_created:
  "deploy_main lab_account all_created None ''2024-05-01T10:00:00'' ''us-east-1''
   = (0,
      Some (config_of ''2024-05-01T10:00:00'' ''us-east-1'' ''inventory-main'' ''a1b2c3d4e5''
              ''https://a1b2c3d4e5.execute-api.us-east-1.amazonaws.com/prod''
              (Some ''http://inventory-web-inventory-main.s3-website-us-east-1.amazonaws.com'')
              ''arn:aws:sns:us-east-1:123456789012:low-stock-inventory-main''),
      [Call (GetRole ''LabRole''), Print Tick ''LabRole'']) \<and>
   map_of (config_of ''2024-05-01T10:00:00'' ''us-east-1'' ''inventory-main'' ''a1b2c3d4e5''
              ''https://a1b2c3d4e5.execute-api.us-east-1.amazonaws.com/prod''
              (Some ''http://inventory-web-inventory-main.s3-website-us-east-1.amazonaws.com'')
              ''arn:aws:sns:us-east-1:123456789012:low-stock-inventory-main'') ''iam_role''
   = Some (Some ''lambda-inventory-role-inventory-main'') \<and>
   create_iam_role lab_account ''inventory-main'' []
   = (Inr ''arn:aws:iam::123456789012:role/LabRole'',
      [Call (GetRole ''LabRole''), Print Tick ''LabRole''])"
  by (simp add: deploy_main_def deployment_def create_iam_role_def SUFFIX_def config_of_def
      IAM_ROLE_LAMBDA_def lab_account_def all_created_def step_def step_value_def
      seq_def bind_def catch_client_def call_text_def print_def return_def
      LAMBDA_LOAD_NAME_def LAMBDA_API_NAME_def LAMBDA_NOTIFY_NAME_def)

end
